theory Spec2Isabelle
  imports Complex_Main
begin

section \<open>JSON values as the exporter sees them\<close>

text \<open>
  \<open>response.json()\<close> hands the exporter a Python value built from \<open>None\<close>, booleans,
  numbers, strings, lists and dictionaries. A dictionary is kept as the list of its
  items (keys pairwise distinct, as in a Python \<open>dict\<close>); a number is kept as the exact
  rational it denotes, so the rounding and the range of Python floats, and the values
  \<open>NaN\<close> and \<open>Infinity\<close> that \<open>json\<close> also reads, are outside the model.
\<close>

datatype json =
    JNull
  | JBool bool
  | JNum rat
  | JStr string
  | JArr "json list"
  | JObj "(string \<times> json) list"

datatype py_error = AttributeError | TypeError | ValueError | ZeroDivisionError

text \<open>Truth value of a Python object, as \<open>if x:\<close> and \<open>if not x:\<close> read it.\<close>

fun truthy :: "json \<Rightarrow> bool" where
  "truthy JNull = False"
| "truthy (JBool b) = b"
| "truthy (JNum r) = (r \<noteq> 0)"
| "truthy (JStr s) = (s \<noteq> [])"
| "truthy (JArr xs) = (xs \<noteq> [])"
| "truthy (JObj kvs) = (kvs \<noteq> [])"

text \<open>\<open>x.get(key, default)\<close>: only a dictionary has the method.\<close>

fun py_get :: "json \<Rightarrow> string \<Rightarrow> json \<Rightarrow> py_error + json" where
  "py_get (JObj kvs) k d = Inr (case map_of kvs k of Some v \<Rightarrow> v | None \<Rightarrow> d)"
| "py_get _ k d = Inl AttributeError"

text \<open>\<open>for x in v\<close>: a list yields its elements, a dictionary its keys, a string its
  characters; nothing else is iterable.\<close>

fun py_iter :: "json \<Rightarrow> py_error + json list" where
  "py_iter (JArr xs) = Inr xs"
| "py_iter (JObj kvs) = Inr (map (\<lambda>kv. JStr (fst kv)) kvs)"
| "py_iter (JStr s) = Inr (map (\<lambda>c. JStr [c]) s)"
| "py_iter _ = Inl TypeError"

text \<open>The numbers of Python: \<open>int\<close>, \<open>float\<close> and \<open>bool\<close> (\<open>True\<close> is 1).\<close>

fun num_of :: "json \<Rightarrow> rat option" where
  "num_of (JNum r) = Some r"
| "num_of (JBool b) = Some (if b then 1 else 0)"
| "num_of _ = None"

text \<open>\<open>size > 0\<close> and \<open>used / size\<close> raise TypeError on anything that is not a number.\<close>

definition py_gt0 :: "json \<Rightarrow> py_error + bool" where
  "py_gt0 v = (case num_of v of Some r \<Rightarrow> Inr (0 < r) | None \<Rightarrow> Inl TypeError)"

definition py_div :: "json \<Rightarrow> json \<Rightarrow> py_error + rat" where
  "py_div a b =
     (case (num_of a, num_of b) of
        (Some x, Some y) \<Rightarrow> if y = 0 then Inl ZeroDivisionError else Inr (x / y)
      | _ \<Rightarrow> Inl TypeError)"

text \<open>\<open>s.lower()\<close> on the ASCII letters; bytes of other characters are left alone,
  which cannot produce the letters of \<open>up\<close>. Only a string has the method.\<close>

definition lower_char :: "char \<Rightarrow> char" where
  "lower_char c =
     (let n = (of_char c :: nat) in if 65 \<le> n \<and> n \<le> 90 then char_of (n + 32) else c)"

fun py_lower :: "json \<Rightarrow> py_error + string" where
  "py_lower (JStr s) = Inr (map lower_char s)"
| "py_lower _ = Inl AttributeError"

text \<open>\<open>s.replace("Z", "+00:00")\<close> replaces every occurrence.\<close>

definition replace_Z :: "string \<Rightarrow> string" where
  "replace_Z s = concat (map (\<lambda>c. if c = CHR ''Z'' then ''+00:00'' else [c]) s)"

section \<open>The world outside the exporter\<close>

text \<open>
  What the exporter calls but does not define is a parameter of the model:
  the upstream server (\<open>requests.get\<close> followed by \<open>response.json()\<close>, as a function of
  the URL and the credentials), and three library functions: \<open>float\<close> on a string,
  \<open>str\<close> on a value that is not a string, and
  \<open>datetime.fromisoformat(s).timestamp()\<close> (\<open>None\<close> where the library raises).
  Within one run the server answers a URL the same way each time it is asked.
\<close>

datatype http_outcome =
    Transport_failure
  | Response int "json option"

record env =
  http_get :: "string \<Rightarrow> string \<Rightarrow> string \<Rightarrow> http_outcome"
  float_of_str :: "string \<Rightarrow> rat option"
  str_of :: "json \<Rightarrow> string"
  iso_timestamp :: "string \<Rightarrow> rat option"

text \<open>\<open>str(x)\<close>, as label values and f-strings apply it.\<close>

definition py_str :: "env \<Rightarrow> json \<Rightarrow> string" where
  "py_str e v = (case v of JStr s \<Rightarrow> s | _ \<Rightarrow> str_of e v)"

text \<open>\<open>float(x)\<close>, which \<open>Gauge.set\<close> applies to its argument.\<close>

definition py_float :: "env \<Rightarrow> json \<Rightarrow> py_error + rat" where
  "py_float e v =
     (case v of
        JNum r \<Rightarrow> Inr r
      | JBool b \<Rightarrow> Inr (if b then 1 else 0)
      | JStr s \<Rightarrow> (case float_of_str e s of Some r \<Rightarrow> Inr r | None \<Rightarrow> Inl ValueError)
      | _ \<Rightarrow> Inl TypeError)"

section \<open>The metric registry, the log and the requests made\<close>

text \<open>The sixteen gauges of the module, under the names of their Python variables.\<close>

datatype gauge =
    volume_used | volume_size | volume_available | volume_usage_percent
  | volume_info | volume_create_time
  | tier_used | tier_size | tier_available | tier_usage_percent
  | tier_full_threshold_percent | tier_physical_used
  | node_uptime | node_state | node_cpu_count | node_memory_size

datatype level = INFO | ERROR

datatype message =
    Fetch_status int string
  | Fetch_exception string
  | Volumes_start
  | Volumes_list_failed
  | Volume_no_link string
  | Volume_detail_failed string
  | Volume_space string json json json rat
  | Volume_no_space string
  | Volume_date_error string json
  | Tiers_start
  | Tiers_list_failed
  | Tier_no_link string
  | Tier_detail_failed string
  | Tier_info string json json json rat json json
  | Nodes_start
  | Nodes_list_failed
  | Node_info string json string json json

text \<open>
  A labelled gauge holds one value for each tuple of label values it has been given;
  the counter \<open>failed_requests\<close> holds one count for each URL. \<open>logged\<close> is the sequence
  of log records and \<open>fetched\<close> the sequence of URLs handed to \<open>requests.get\<close>.
\<close>

record state =
  gauges :: "gauge \<times> string list \<Rightarrow> rat option"
  failed_requests :: "string \<Rightarrow> nat"
  logged :: "(level \<times> message) list"
  fetched :: "string list"

text \<open>
  A statement of the program takes the state and gives the new state with either its
  result or the exception it raised; the state reached when an exception is raised is
  kept, as the writes made before it are.
\<close>

type_synonym 'a prog = "state \<Rightarrow> (py_error + 'a) \<times> state"

definition lift :: "py_error + 'a \<Rightarrow> 'a prog" where
  "lift r st = (r, st)"

definition andthen :: "'a prog \<Rightarrow> ('a \<Rightarrow> 'b prog) \<Rightarrow> 'b prog" where
  "andthen m f st = (case m st of (Inl e, st') \<Rightarrow> (Inl e, st') | (Inr x, st') \<Rightarrow> f x st')"

definition try_get :: "py_error + json \<Rightarrow> string \<Rightarrow> json \<Rightarrow> py_error + json" where
  "try_get r k d = (case r of Inl e \<Rightarrow> Inl e | Inr v \<Rightarrow> py_get v k d)"

definition logging :: "level \<Rightarrow> message \<Rightarrow> unit prog" where
  "logging l m st = (Inr (), st\<lparr>logged := logged st @ [(l, m)]\<rparr>)"

definition inc_failed :: "string \<Rightarrow> unit prog" where
  "inc_failed url st =
     (Inr (), st\<lparr>failed_requests := (failed_requests st)(url := Suc (failed_requests st url))\<rparr>)"

text \<open>\<open>g.labels(...).set(v)\<close> with a number, and with a JSON value that \<open>float\<close> converts.\<close>

definition set_gauge :: "gauge \<Rightarrow> string list \<Rightarrow> rat \<Rightarrow> unit prog" where
  "set_gauge g ls v st = (Inr (), st\<lparr>gauges := (gauges st)((g, ls) \<mapsto> v)\<rparr>)"

definition set_gauge_json :: "env \<Rightarrow> gauge \<Rightarrow> string list \<Rightarrow> json \<Rightarrow> unit prog" where
  "set_gauge_json e g ls v = andthen (lift (py_float e v)) (set_gauge g ls)"

section \<open>fetch_json\<close>

text \<open>
  The failure marker \<open>None\<close> is \<open>JNull\<close>. A body that does not parse makes
  \<open>response.json()\<close> raise inside the \<open>try\<close>, which the handler counts like a
  transport failure.
\<close>

definition fetch_failed :: "message \<Rightarrow> string \<Rightarrow> json prog" where
  "fetch_failed m url =
     andthen (logging ERROR m) (\<lambda>_. andthen (inc_failed url) (\<lambda>_. lift (Inr JNull)))"

definition fetch_json :: "env \<Rightarrow> string \<Rightarrow> string \<Rightarrow> string \<Rightarrow> json prog" where
  "fetch_json e url username password st =
     (let st1 = st\<lparr>fetched := fetched st @ [url]\<rparr> in
      case http_get e url username password of
        Transport_failure \<Rightarrow> fetch_failed (Fetch_exception url) url st1
      | Response status_code body \<Rightarrow>
          if status_code = 200 then
            (case body of
               Some j \<Rightarrow> (Inr j, st1)
             | None \<Rightarrow> fetch_failed (Fetch_exception url) url st1)
          else fetch_failed (Fetch_status status_code url) url st1)"

section \<open>What the collectors share\<close>

text \<open>\<open>for x in xs: body\<close>, where \<open>continue\<close> ends one round and an exception ends the loop.\<close>

fun foreach :: "('a \<Rightarrow> unit prog) \<Rightarrow> 'a list \<Rightarrow> unit prog" where
  "foreach f [] st = (Inr (), st)"
| "foreach f (x # xs) st =
     (case f x st of (Inl e, st') \<Rightarrow> (Inl e, st') | (Inr _, st') \<Rightarrow> foreach f xs st')"

text \<open>\<open>entry.get("_links", {}).get("self", {}).get("href")\<close>\<close>

definition detail_link :: "json \<Rightarrow> py_error + json" where
  "detail_link entry =
     try_get (try_get (py_get entry ''_links'' (JObj [])) ''self'' (JObj [])) ''href'' JNull"

text \<open>\<open>(used / size * 100) if size > 0 else 0\<close>: the condition is evaluated first.\<close>

definition percent_used :: "json \<Rightarrow> json \<Rightarrow> py_error + rat" where
  "percent_used used size' =
     (case py_gt0 size' of
        Inl e \<Rightarrow> Inl e
      | Inr True \<Rightarrow> (case py_div used size' of Inl e \<Rightarrow> Inl e | Inr q \<Rightarrow> Inr (q * 100))
      | Inr False \<Rightarrow> Inr 0)"

section \<open>collect_volume_metrics\<close>

text \<open>The \<open>space\<close> section of a volume's detail object.\<close>

definition volume_space :: "env \<Rightarrow> json \<Rightarrow> json \<Rightarrow> unit prog" where
  "volume_space e vol_name vol_detail =
     andthen (lift (py_get vol_detail ''space'' (JObj []))) (\<lambda>space.
     if truthy space then
       andthen (lift (py_get space ''used'' (JNum 0))) (\<lambda>used.
       andthen (lift (py_get space ''size'' (JNum 0))) (\<lambda>size'.
       andthen (lift (py_get space ''available'' (JNum 0))) (\<lambda>available.
       andthen (lift (percent_used used size')) (\<lambda>percent.
       andthen (set_gauge_json e volume_used [py_str e vol_name] used) (\<lambda>_.
       andthen (set_gauge_json e volume_size [py_str e vol_name] size') (\<lambda>_.
       andthen (set_gauge_json e volume_available [py_str e vol_name] available) (\<lambda>_.
       andthen (set_gauge volume_usage_percent [py_str e vol_name] percent) (\<lambda>_.
       logging INFO (Volume_space (py_str e vol_name) used size' available percent)))))))))
     else logging INFO (Volume_no_space (py_str e vol_name)))"

text \<open>
  The creation time. Everything between \<open>try\<close> and \<open>except Exception\<close> is one step:
  \<open>None\<close> is an exception there, the library's on a string it rejects or
  AttributeError on a value without \<open>replace\<close>.
\<close>

definition parse_create_time :: "env \<Rightarrow> json \<Rightarrow> rat option" where
  "parse_create_time e c = (case c of JStr s \<Rightarrow> iso_timestamp e (replace_Z s) | _ \<Rightarrow> None)"

definition volume_created :: "env \<Rightarrow> json \<Rightarrow> json \<Rightarrow> unit prog" where
  "volume_created e vol_name vol_detail =
     andthen (lift (py_get vol_detail ''create_time'' JNull)) (\<lambda>create_time_str.
     andthen
       (if truthy create_time_str then
          (case parse_create_time e create_time_str of
             Some ts \<Rightarrow> lift (Inr ts)
           | None \<Rightarrow>
               andthen (logging ERROR (Volume_date_error (py_str e vol_name) create_time_str))
                 (\<lambda>_. lift (Inr 0)))
        else lift (Inr 0))
       (\<lambda>ts. set_gauge volume_create_time [py_str e vol_name] ts))"

text \<open>The info metric, whose label values go through \<open>str\<close>.\<close>

definition volume_information :: "env \<Rightarrow> json \<Rightarrow> json \<Rightarrow> unit prog" where
  "volume_information e vol_name vol_detail =
     andthen (lift (py_get vol_detail ''style'' (JStr ''unknown''))) (\<lambda>style.
     andthen (lift (py_get vol_detail ''type'' (JStr ''unknown''))) (\<lambda>vtype.
     andthen (lift (try_get (py_get vol_detail ''snapshot_policy'' (JObj []))
                      ''name'' (JStr ''unknown''))) (\<lambda>snapshot_policy.
     andthen (lift (try_get (py_get vol_detail ''svm'' (JObj []))
                      ''name'' (JStr ''unknown''))) (\<lambda>svm_name.
     set_gauge volume_info
       [py_str e vol_name, py_str e style, py_str e vtype,
        py_str e snapshot_policy, py_str e svm_name] 1))))"

definition record_volume :: "env \<Rightarrow> json \<Rightarrow> json \<Rightarrow> unit prog" where
  "record_volume e vol_name vol_detail =
     andthen (volume_space e vol_name vol_detail) (\<lambda>_.
     andthen (volume_created e vol_name vol_detail) (\<lambda>_.
     volume_information e vol_name vol_detail))"

text \<open>One round of the loop over the volumes.\<close>

definition collect_volume :: "env \<Rightarrow> string \<Rightarrow> string \<Rightarrow> string \<Rightarrow> json \<Rightarrow> unit prog" where
  "collect_volume e ontap_ip username password vol =
     andthen (lift (py_get vol ''name'' (JStr ''Inconnu''))) (\<lambda>vol_name.
     andthen (lift (detail_link vol)) (\<lambda>self_href.
     if \<not> truthy self_href then logging ERROR (Volume_no_link (py_str e vol_name))
     else
       andthen (fetch_json e (''https://'' @ ontap_ip @ py_str e self_href) username password)
         (\<lambda>vol_detail.
       if vol_detail = JNull then logging ERROR (Volume_detail_failed (py_str e vol_name))
       else record_volume e vol_name vol_detail)))"

definition collect_volume_metrics :: "env \<Rightarrow> string \<Rightarrow> string \<Rightarrow> string \<Rightarrow> unit prog" where
  "collect_volume_metrics e ontap_ip username password =
     andthen (logging INFO Volumes_start) (\<lambda>_.
     andthen (fetch_json e (''https://'' @ ontap_ip @ ''/api/storage/volumes'') username password)
       (\<lambda>data.
     if data = JNull then logging ERROR Volumes_list_failed
     else
       andthen (lift (py_get data ''records'' data)) (\<lambda>volumes.
       andthen (lift (py_iter volumes))
         (foreach (collect_volume e ontap_ip username password)))))"

section \<open>collect_tier_metrics\<close>

definition record_tier :: "env \<Rightarrow> json \<Rightarrow> json \<Rightarrow> unit prog" where
  "record_tier e tier_name agg_detail =
     andthen (lift (try_get (py_get agg_detail ''space'' (JObj []))
                      ''block_storage'' (JObj []))) (\<lambda>block_storage.
     andthen (lift (py_get block_storage ''used'' (JNum 0))) (\<lambda>used.
     andthen (lift (py_get block_storage ''size'' (JNum 0))) (\<lambda>size'.
     andthen (lift (py_get block_storage ''available'' (JNum 0))) (\<lambda>available.
     andthen (lift (percent_used used size')) (\<lambda>percent.
     andthen (set_gauge_json e tier_used [py_str e tier_name] used) (\<lambda>_.
     andthen (set_gauge_json e tier_size [py_str e tier_name] size') (\<lambda>_.
     andthen (set_gauge_json e tier_available [py_str e tier_name] available) (\<lambda>_.
     andthen (set_gauge tier_usage_percent [py_str e tier_name] percent) (\<lambda>_.
     andthen (lift (py_get block_storage ''full_threshold_percent'' (JNum 0)))
       (\<lambda>full_threshold.
     andthen (lift (py_get block_storage ''physical_used'' (JNum 0))) (\<lambda>physical_used.
     andthen (set_gauge_json e tier_full_threshold_percent [py_str e tier_name]
                full_threshold) (\<lambda>_.
     andthen (set_gauge_json e tier_physical_used [py_str e tier_name] physical_used) (\<lambda>_.
     logging INFO
       (Tier_info (py_str e tier_name) used size' available percent
          full_threshold physical_used))))))))))))))"

definition collect_tier :: "env \<Rightarrow> string \<Rightarrow> string \<Rightarrow> string \<Rightarrow> json \<Rightarrow> unit prog" where
  "collect_tier e ontap_ip username password agg =
     andthen (lift (py_get agg ''name'' (JStr ''Inconnu''))) (\<lambda>tier_name.
     andthen (lift (detail_link agg)) (\<lambda>self_href.
     if \<not> truthy self_href then logging ERROR (Tier_no_link (py_str e tier_name))
     else
       andthen (fetch_json e (''https://'' @ ontap_ip @ py_str e self_href) username password)
         (\<lambda>agg_detail.
       if agg_detail = JNull then logging ERROR (Tier_detail_failed (py_str e tier_name))
       else record_tier e tier_name agg_detail)))"

definition collect_tier_metrics :: "env \<Rightarrow> string \<Rightarrow> string \<Rightarrow> string \<Rightarrow> unit prog" where
  "collect_tier_metrics e ontap_ip username password =
     andthen (logging INFO Tiers_start) (\<lambda>_.
     andthen (fetch_json e (''https://'' @ ontap_ip @ ''/api/storage/aggregates'')
                username password) (\<lambda>data.
     if data = JNull then logging ERROR Tiers_list_failed
     else
       andthen (lift (py_get data ''records'' data)) (\<lambda>aggregates.
       andthen (lift (py_iter aggregates))
         (foreach (collect_tier e ontap_ip username password)))))"

section \<open>collect_node_metrics\<close>

definition collect_node :: "env \<Rightarrow> json \<Rightarrow> unit prog" where
  "collect_node e node =
     andthen (lift (py_get node ''name'' (JStr ''Inconnu''))) (\<lambda>node_name.
     andthen (lift (py_get node ''uptime'' (JNum 0))) (\<lambda>uptime.
     andthen (lift (case py_get node ''state'' (JStr []) of
                      Inl x \<Rightarrow> Inl x | Inr v \<Rightarrow> py_lower v)) (\<lambda>state_str.
     andthen (lift (Inr (if state_str = ''up'' then 1 else 0))) (\<lambda>state_val.
     andthen (lift (try_get (try_get (py_get node ''controller'' (JObj []))
                      ''cpu'' (JObj [])) ''count'' (JNum 0))) (\<lambda>cpu_count.
     andthen (lift (try_get (py_get node ''controller'' (JObj []))
                      ''memory_size'' (JNum 0))) (\<lambda>memory_size.
     andthen (set_gauge_json e node_uptime [py_str e node_name] uptime) (\<lambda>_.
     andthen (set_gauge node_state [py_str e node_name] state_val) (\<lambda>_.
     andthen (set_gauge_json e node_cpu_count [py_str e node_name] cpu_count) (\<lambda>_.
     andthen (set_gauge_json e node_memory_size [py_str e node_name] memory_size) (\<lambda>_.
     logging INFO
       (Node_info (py_str e node_name) uptime state_str cpu_count memory_size)))))))))))"

definition collect_node_metrics :: "env \<Rightarrow> string \<Rightarrow> string \<Rightarrow> string \<Rightarrow> unit prog" where
  "collect_node_metrics e ontap_ip username password =
     andthen (logging INFO Nodes_start) (\<lambda>_.
     andthen (fetch_json e (''https://'' @ ontap_ip @ ''/api/cluster/nodes'') username password)
       (\<lambda>data.
     if data = JNull then logging ERROR Nodes_list_failed
     else
       andthen (lift (py_get data ''records'' data)) (\<lambda>nodes.
       andthen (lift (py_iter nodes)) (foreach (collect_node e)))))"

text \<open>
  \<open>collect_metrics\<close> submits the three collectors to a pool of three worker threads
  and reads none of the futures: an exception that ends a collector (\<open>Inl\<close> above)
  stays in its future, and the gauges written before it stay in the registry.
\<close>

section \<open>The metric families the module registers\<close>

text \<open>The first and third argument of each \<open>Gauge(...)\<close> and of the \<open>Counter(...)\<close>.\<close>

fun gauge_name :: "gauge \<Rightarrow> string" where
  "gauge_name volume_used = ''netapp_volume_used_bytes''"
| "gauge_name volume_size = ''netapp_volume_size_bytes''"
| "gauge_name volume_available = ''netapp_volume_available_bytes''"
| "gauge_name volume_usage_percent = ''netapp_volume_usage_percent''"
| "gauge_name volume_info = ''netapp_volume_info''"
| "gauge_name volume_create_time = ''netapp_volume_create_time''"
| "gauge_name tier_used = ''netapp_tier_used_bytes''"
| "gauge_name tier_size = ''netapp_tier_size_bytes''"
| "gauge_name tier_available = ''netapp_tier_available_bytes''"
| "gauge_name tier_usage_percent = ''netapp_tier_usage_percent''"
| "gauge_name tier_full_threshold_percent = ''netapp_tier_full_threshold_percent''"
| "gauge_name tier_physical_used = ''netapp_tier_physical_used_bytes''"
| "gauge_name node_uptime = ''netapp_node_uptime_seconds''"
| "gauge_name node_state = ''netapp_node_state''"
| "gauge_name node_cpu_count = ''netapp_node_cpu_count''"
| "gauge_name node_memory_size = ''netapp_node_memory_size_bytes''"

fun gauge_labels :: "gauge \<Rightarrow> string list" where
  "gauge_labels volume_used = [''volume'']"
| "gauge_labels volume_size = [''volume'']"
| "gauge_labels volume_available = [''volume'']"
| "gauge_labels volume_usage_percent = [''volume'']"
| "gauge_labels volume_info = [''volume'', ''style'', ''type'', ''snapshot_policy'', ''svm'']"
| "gauge_labels volume_create_time = [''volume'']"
| "gauge_labels tier_used = [''tier'']"
| "gauge_labels tier_size = [''tier'']"
| "gauge_labels tier_available = [''tier'']"
| "gauge_labels tier_usage_percent = [''tier'']"
| "gauge_labels tier_full_threshold_percent = [''tier'']"
| "gauge_labels tier_physical_used = [''tier'']"
| "gauge_labels node_uptime = [''node'']"
| "gauge_labels node_state = [''node'']"
| "gauge_labels node_cpu_count = [''node'']"
| "gauge_labels node_memory_size = [''node'']"

definition all_gauges :: "gauge list" where
  "all_gauges =
     [volume_used, volume_size, volume_available, volume_usage_percent, volume_info,
      volume_create_time, tier_used, tier_size, tier_available, tier_usage_percent,
      tier_full_threshold_percent, tier_physical_used, node_uptime, node_state,
      node_cpu_count, node_memory_size]"

definition metric_families :: "(string \<times> string list) list" where
  "metric_families =
     map (\<lambda>g. (gauge_name g, gauge_labels g)) all_gauges
     @ [(''netapp_failed_requests'', [''endpoint''])]"

text \<open>The catalogue as the specification words it, for comparison with the above.\<close>

definition catalogue_of_spec :: "(string \<times> string list) list" where
  "catalogue_of_spec =
     [(''volume_used_bytes'', [''volume'']),
      (''volume_size_bytes'', [''volume'']),
      (''volume_available_bytes'', [''volume'']),
      (''volume_usage_percent'', [''volume'']),
      (''volume_info'', [''volume'', ''style'', ''type'', ''snapshot_policy'', ''svm'']),
      (''volume_create_time'', [''volume'']),
      (''tier_used_bytes'', [''tier'']),
      (''tier_size_bytes'', [''tier'']),
      (''tier_available_bytes'', [''tier'']),
      (''tier_usage_percent'', [''tier'']),
      (''tier_full_threshold_percent'', [''tier'']),
      (''tier_physical_used_bytes'', [''tier'']),
      (''node_uptime_seconds'', [''node'']),
      (''node_state'', [''node'']),
      (''node_cpu_count'', [''node'']),
      (''node_memory_size_bytes'', [''node'']),
      (''failed_requests'', [''endpoint''])]"

section \<open>Notions the statements use\<close>

text \<open>A fetch fails on a transport failure or timeout, on a status other than 200, and
  on a body that is not JSON.\<close>

definition fetch_fails :: "env \<Rightarrow> string \<Rightarrow> string \<Rightarrow> string \<Rightarrow> bool" where
  "fetch_fails e url username password =
     (case http_get e url username password of
        Transport_failure \<Rightarrow> True
      | Response status_code body \<Rightarrow> status_code \<noteq> 200 \<or> body = None)"


text \<open>
  A list entry without a detail link: an object in which \<open>_links\<close> and \<open>self\<close>
  are objects where present, and \<open>href\<close> is absent or a value that counts as false.
\<close>

definition lacks_link :: "json \<Rightarrow> bool" where
  "lacks_link entry =
     (case py_get entry ''_links'' (JObj []) of
        Inr (JObj links) \<Rightarrow>
          (case map_of links ''self'' of
             None \<Rightarrow> True
           | Some (JObj self) \<Rightarrow>
               (case map_of self ''href'' of None \<Rightarrow> True | Some href \<Rightarrow> \<not> truthy href)
           | Some _ \<Rightarrow> False)
      | _ \<Rightarrow> False)"

section \<open>A sample cluster\<close>

text \<open>
  One concrete world, on which the general statements below are run. Its library
  functions decide the inputs this cluster produces: \<open>utc_timestamp\<close> reads
  \<open>YYYY-MM-DDTHH:MM:SS+00:00\<close> and counts the seconds since 1970-01-01T00:00:00 UTC.
\<close>

definition digit_of :: "char \<Rightarrow> nat option" where
  "digit_of c =
     (let n = (of_char c :: nat) in if 48 \<le> n \<and> n \<le> 57 then Some (n - 48) else None)"

fun number_of :: "string \<Rightarrow> nat option" where
  "number_of [] = Some 0"
| "number_of (c # cs) =
     (case (digit_of c, number_of cs) of
        (Some d, Some n) \<Rightarrow> Some (d * 10 ^ length cs + n)
      | _ \<Rightarrow> None)"

definition days_in_month :: "nat \<Rightarrow> nat \<Rightarrow> nat" where
  "days_in_month y m =
     (if m = 2 then (if y mod 4 = 0 \<and> (y mod 100 \<noteq> 0 \<or> y mod 400 = 0) then 29 else 28)
      else if m \<in> {4, 6, 9, 11} then 30 else 31)"

definition days_from_civil :: "int \<Rightarrow> int \<Rightarrow> int \<Rightarrow> int" where
  "days_from_civil y m d =
     (let y' = (if m \<le> 2 then y - 1 else y);
          era = y' div 400;
          yoe = y' - era * 400;
          doy = (153 * (if 2 < m then m - 3 else m + 9) + 2) div 5 + d - 1;
          doe = yoe * 365 + yoe div 4 - yoe div 100 + doy
      in era * 146097 + doe - 719468)"

definition utc_timestamp :: "string \<Rightarrow> rat option" where
  "utc_timestamp s =
     (if length s = 25 \<and> s ! 4 = CHR ''-'' \<and> s ! 7 = CHR ''-'' \<and> s ! 10 = CHR ''T''
         \<and> s ! 13 = CHR '':'' \<and> s ! 16 = CHR '':'' \<and> drop 19 s = ''+00:00''
      then
        (case (number_of (take 4 s), number_of (take 2 (drop 5 s)),
               number_of (take 2 (drop 8 s)), number_of (take 2 (drop 11 s)),
               number_of (take 2 (drop 14 s)), number_of (take 2 (drop 17 s))) of
           (Some y, Some m, Some d, Some hh, Some mm, Some ss) \<Rightarrow>
             if 1 \<le> y \<and> 1 \<le> m \<and> m \<le> 12 \<and> 1 \<le> d \<and> d \<le> days_in_month y m
                \<and> hh < 24 \<and> mm < 60 \<and> ss < 60
             then Some (of_int (((days_from_civil (int y) (int m) (int d) * 24 + int hh) * 60
                                  + int mm) * 60 + int ss))
             else None
         | _ \<Rightarrow> None)
      else None)"

definition sample_str :: "json \<Rightarrow> string" where
  "sample_str v =
     (case v of JNull \<Rightarrow> ''None'' | JBool b \<Rightarrow> (if b then ''True'' else ''False'') | _ \<Rightarrow> ''?'')"

definition linked :: "string \<Rightarrow> string \<Rightarrow> json" where
  "linked name href =
     JObj [(''name'', JStr name), (''_links'', JObj [(''self'', JObj [(''href'', JStr href)])])]"

definition sample_vol1 :: json where
  "sample_vol1 =
     JObj [(''name'', JStr ''vol1''),
           (''space'', JObj [(''used'', JNum 25), (''size'', JNum 100), (''available'', JNum 75)]),
           (''create_time'', JStr ''2023-01-01T00:00:00Z''),
           (''style'', JStr ''flexvol''),
           (''type'', JStr ''rw''),
           (''snapshot_policy'', JObj [(''name'', JStr ''default'')]),
           (''svm'', JObj [(''name'', JStr ''svm1'')])]"

definition sample_vol3 :: json where
  "sample_vol3 = JObj [(''space'', JObj []), (''create_time'', JStr ''not-a-date'')]"

definition sample_volumes :: "json list" where
  "sample_volumes =
     [linked ''vol1'' ''/api/storage/volumes/v1'',
      JObj [(''name'', JStr ''vol2'')],
      linked ''vol3'' ''/api/storage/volumes/v3'']"

definition sample_aggr1 :: json where
  "sample_aggr1 =
     JObj [(''space'', JObj [(''block_storage'',
             JObj [(''used'', JNum 30), (''size'', JNum 120), (''available'', JNum 90),
                   (''full_threshold_percent'', JNum 98), (''physical_used'', JNum 28)])])]"

definition sample_aggregates :: "json list" where
  "sample_aggregates = [linked ''aggr1'' ''/api/storage/aggregates/a1'']"

definition sample_node :: json where
  "sample_node =
     JObj [(''name'', JStr ''node1''),
           (''uptime'', JNum 3600),
           (''state'', JStr ''UP''),
           (''controller'', JObj [(''cpu'', JObj [(''count'', JNum 8)]),
                                  (''memory_size'', JNum 1024)]),
           (''_links'', JObj [(''self'', JObj [(''href'', JStr ''/api/cluster/nodes/n1'')])])]"

definition sample_server :: "string \<Rightarrow> string \<Rightarrow> string \<Rightarrow> http_outcome" where
  "sample_server url username password =
     (if url = ''https://filer/api/storage/volumes''
        then Response 200 (Some (JObj [(''records'', JArr sample_volumes)]))
      else if url = ''https://filer/api/storage/volumes/v1'' then Response 200 (Some sample_vol1)
      else if url = ''https://filer/api/storage/volumes/v3'' then Response 200 (Some sample_vol3)
      else if url = ''https://filer/api/storage/aggregates''
        then Response 200 (Some (JObj [(''records'', JArr sample_aggregates)]))
      else if url = ''https://filer/api/storage/aggregates/a1''
        then Response 200 (Some sample_aggr1)
      else if url = ''https://filer/api/cluster/nodes''
        then Response 200 (Some (JObj [(''records'', JArr [sample_node])]))
      else Response 404 None)"

definition sample_env :: env where
  "sample_env =
     \<lparr>http_get = sample_server,
      float_of_str = (\<lambda>s. if s = [] then None else map_option of_nat (number_of s)),
      str_of = sample_str,
      iso_timestamp = utc_timestamp\<rparr>"

text \<open>The same cluster answering its list endpoints with bare arrays.\<close>

definition bare_server :: "string \<Rightarrow> string \<Rightarrow> string \<Rightarrow> http_outcome" where
  "bare_server url username password =
     (if url = ''https://filer/api/storage/volumes'' then Response 200 (Some (JArr sample_volumes))
      else if url = ''https://filer/api/storage/aggregates''
        then Response 200 (Some (JArr sample_aggregates))
      else if url = ''https://filer/api/cluster/nodes'' then Response 200 (Some (JArr [sample_node]))
      else sample_server url username password)"

definition bare_env :: env where
  "bare_env = sample_env\<lparr>http_get := bare_server\<rparr>"

text \<open>The registry of a process that has not collected yet.\<close>

definition fresh :: state where
  "fresh = \<lparr>gauges = (\<lambda>_. None), failed_requests = (\<lambda>_. 0), logged = [], fetched = []\<rparr>"

section \<open>Stepping through a collector\<close>

lemma andthen_lift_Inr [simp]: "andthen (lift (Inr x)) f = f x"
  by (rule ext) (simp add: andthen_def lift_def)

lemma andthen_lift_Inl [simp]: "andthen (lift (Inl err)) f st = (Inl err, st)"
  by (simp add: andthen_def lift_def)


lemma andthen_set_gauge [simp]:
  "andthen (set_gauge g ls v) f st = f () (st\<lparr>gauges := (gauges st)((g, ls) \<mapsto> v)\<rparr>)"
  by (simp add: andthen_def set_gauge_def)

lemma set_gauge_json_ok [simp]:
  "py_float e v = Inr r \<Longrightarrow> set_gauge_json e g ls v = set_gauge g ls r"
  by (simp add: set_gauge_json_def)

lemma py_float_num: "num_of v = Some r \<Longrightarrow> py_float e v = Inr r"
  by (cases v) (auto simp: py_float_def)

lemma percent_used_num:
  "num_of used = Some u \<Longrightarrow> num_of sz = Some s \<Longrightarrow>
   percent_used used sz = Inr (if 0 < s then u / s * 100 else 0)"
  by (auto simp: percent_used_def py_gt0_def py_div_def)

lemma snd_andthen:
  "snd (andthen m f st) =
     (case fst (m st) of Inl err \<Rightarrow> snd (m st) | Inr x \<Rightarrow> snd (f x (snd (m st))))"
  by (auto simp: andthen_def split: prod.splits sum.splits)

lemma fetch_failed_eq:
  "fetch_failed m url st =
     (Inr JNull,
      st\<lparr>logged := logged st @ [(ERROR, m)],
         failed_requests := (failed_requests st)(url := Suc (failed_requests st url))\<rparr>)"
  by (simp add: fetch_failed_def inc_failed_def lift_def andthen_def logging_def)

section \<open>Failed fetches\<close>

text \<open>
  C7. A fetch that fails (status other than 200, transport failure or timeout, body
  that is not JSON) returns the failure marker, adds exactly one to the counter of its
  own URL, leaves the counter of every other URL as it was, and changes no gauge.
\<close>

theorem fetch_json_failure:
  assumes "fetch_fails e url username password"
  shows "fst (fetch_json e url username password st) = Inr JNull
       \<and> failed_requests (snd (fetch_json e url username password st)) url
           = failed_requests st url + 1
       \<and> (\<forall>other. other \<noteq> url \<longrightarrow>
             failed_requests (snd (fetch_json e url username password st)) other
               = failed_requests st other)
       \<and> gauges (snd (fetch_json e url username password st)) = gauges st"
  using assms
  by (auto simp: fetch_fails_def fetch_json_def fetch_failed_eq Let_def
           split: http_outcome.splits option.splits)

theorem fetch_json_failure_witness:
  "fetch_fails sample_env ''https://filer/api/storage/volumes/gone'' ''admin'' ''secret''
   \<and> fst (fetch_json sample_env ''https://filer/api/storage/volumes/gone'' ''admin'' ''secret''
            fresh) = Inr JNull
   \<and> failed_requests
        (snd (fetch_json sample_env ''https://filer/api/storage/volumes/gone'' ''admin''
                ''secret'' fresh))
        ''https://filer/api/storage/volumes/gone'' = 1
   \<and> gauges
        (snd (fetch_json sample_env ''https://filer/api/storage/volumes/gone'' ''admin''
                ''secret'' fresh)) = gauges fresh"
proof -
  have h: "fetch_fails sample_env ''https://filer/api/storage/volumes/gone'' ''admin'' ''secret''"
    by (simp add: fetch_fails_def sample_env_def sample_server_def)
  show ?thesis
    using h fetch_json_failure [OF h, of fresh] by (simp add: fresh_def)
qed

section \<open>Volumes\<close>






section \<open>Aggregates\<close>

text \<open>
  C2. For an aggregate detail object whose \<open>space\<close> and \<open>block_storage\<close> are
  objects where present and whose five fields are numbers where present, the collector
  completes and leaves in the six tier gauges of that aggregate: \<open>used\<close>, \<open>size\<close>
  and \<open>available\<close> of \<open>space.block_storage\<close> (0 where absent),
  \<open>used / size * 100\<close> when \<open>size > 0\<close> and 0 otherwise, and
  \<open>full_threshold_percent\<close> and \<open>physical_used\<close> (0 where absent).
\<close>

theorem record_tier_values:
  assumes "try_get (py_get agg_detail ''space'' (JObj [])) ''block_storage'' (JObj [])
             = Inr block_storage"
    "py_get block_storage ''used'' (JNum 0) = Inr used" "num_of used = Some u"
    "py_get block_storage ''size'' (JNum 0) = Inr sz" "num_of sz = Some s"
    "py_get block_storage ''available'' (JNum 0) = Inr available"
    "num_of available = Some a"
    "py_get block_storage ''full_threshold_percent'' (JNum 0) = Inr full_threshold"
    "num_of full_threshold = Some t"
    "py_get block_storage ''physical_used'' (JNum 0) = Inr physical_used"
    "num_of physical_used = Some p"
  shows "record_tier e tier_name agg_detail st =
    (Inr (), st\<lparr>gauges := (gauges st)
       ((tier_used, [py_str e tier_name]) \<mapsto> u,
        (tier_size, [py_str e tier_name]) \<mapsto> s,
        (tier_available, [py_str e tier_name]) \<mapsto> a,
        (tier_usage_percent, [py_str e tier_name]) \<mapsto> (if 0 < s then u / s * 100 else 0),
        (tier_full_threshold_percent, [py_str e tier_name]) \<mapsto> t,
        (tier_physical_used, [py_str e tier_name]) \<mapsto> p),
      logged := logged st @ [(INFO, Tier_info (py_str e tier_name) used sz available
          (if 0 < s then u / s * 100 else 0) full_threshold physical_used)]\<rparr>)"
  using assms
  by (simp add: record_tier_def percent_used_num py_float_num logging_def)

theorem record_tier_values_witness:
  "fst (record_tier sample_env (JStr ''aggr1'') sample_aggr1 fresh) = Inr ()
   \<and> map (\<lambda>g. gauges (snd (record_tier sample_env (JStr ''aggr1'') sample_aggr1 fresh))
                (g, [''aggr1'']))
        [tier_used, tier_size, tier_available, tier_usage_percent,
         tier_full_threshold_percent, tier_physical_used]
      = [Some 30, Some 120, Some 90, Some 25, Some 98, Some 28]
   \<and> map (\<lambda>g. gauges (snd (record_tier sample_env (JStr ''aggr2'') (JObj []) fresh))
                (g, [''aggr2'']))
        [tier_used, tier_size, tier_available, tier_usage_percent,
         tier_full_threshold_percent, tier_physical_used]
      = [Some 0, Some 0, Some 0, Some 0, Some 0, Some 0]"
  using record_tier_values [where agg_detail = sample_aggr1
      and block_storage = "JObj [(''used'', JNum 30), (''size'', JNum 120),
             (''available'', JNum 90), (''full_threshold_percent'', JNum 98),
             (''physical_used'', JNum 28)]"
      and used = "JNum 30" and u = 30 and sz = "JNum 120" and s = 120
      and available = "JNum 90" and a = 90 and full_threshold = "JNum 98" and t = 98
      and physical_used = "JNum 28" and p = 28
      and e = sample_env and tier_name = "JStr ''aggr1''" and st = fresh]
    record_tier_values [where agg_detail = "JObj []" and block_storage = "JObj []"
      and used = "JNum 0" and u = 0 and sz = "JNum 0" and s = 0
      and available = "JNum 0" and a = 0 and full_threshold = "JNum 0" and t = 0
      and physical_used = "JNum 0" and p = 0
      and e = sample_env and tier_name = "JStr ''aggr2''" and st = fresh]
  by (simp add: sample_aggr1_def py_str_def try_get_def)

section \<open>Nodes\<close>

lemma lower_char_cases:
  "lower_char c = d \<longleftrightarrow>
     (if 65 \<le> (of_char c :: nat) \<and> (of_char c :: nat) \<le> 90
      then (of_char d :: nat) = of_char c + 32 else c = d)"
proof -
  have "(of_char c :: nat) \<le> 90 \<Longrightarrow> take_bit 8 ((of_char c :: nat) + 32) = of_char c + 32"
    by (simp add: take_bit_nat_eq_self_iff)
  then show ?thesis
    by (auto simp: lower_char_def Let_def char_of_eq_iff)
qed

lemma of_char_nat_eq: "((of_char c :: nat) = of_char d) = (c = d)"
  by (metis of_char_eq_iff)

lemma lower_char_u: "lower_char c = CHR ''u'' \<longleftrightarrow> c = CHR ''u'' \<or> c = CHR ''U''"
proof -
  have a: "(of_char (CHR ''u'') :: nat) = 117" and b: "(of_char (CHR ''U'') :: nat) = 85"
    by simp_all
  have "(of_char c :: nat) = 85 \<longleftrightarrow> c = CHR ''U''" "(of_char c :: nat) = 117 \<longleftrightarrow> c = CHR ''u''"
    using of_char_nat_eq [of c "CHR ''U''"] of_char_nat_eq [of c "CHR ''u''"]
    by (simp_all only: a b)
  then show ?thesis
    unfolding lower_char_cases a by auto
qed

lemma lower_char_p: "lower_char c = CHR ''p'' \<longleftrightarrow> c = CHR ''p'' \<or> c = CHR ''P''"
proof -
  have a: "(of_char (CHR ''p'') :: nat) = 112" and b: "(of_char (CHR ''P'') :: nat) = 80"
    by simp_all
  have "(of_char c :: nat) = 80 \<longleftrightarrow> c = CHR ''P''" "(of_char c :: nat) = 112 \<longleftrightarrow> c = CHR ''p''"
    using of_char_nat_eq [of c "CHR ''P''"] of_char_nat_eq [of c "CHR ''p''"]
    by (simp_all only: a b)
  then show ?thesis
    unfolding lower_char_cases a by auto
qed

lemma lower_up: "map lower_char s = ''up'' \<longleftrightarrow> s \<in> {''up'', ''Up'', ''uP'', ''UP''}"
proof (cases s)
  case Nil
  then show ?thesis by simp
next
  case (Cons a t)
  note outer = this
  show ?thesis
  proof (cases t)
    case Nil
    with outer show ?thesis by simp
  next
    case (Cons b r)
    with outer show ?thesis
      by (cases r) (auto simp: lower_char_u lower_char_p)
  qed
qed

text \<open>
  C6. For a node list entry whose \<open>state\<close> is a string \<open>s\<close> (the empty string when
  the field is absent), whose \<open>uptime\<close> converts to a number and whose \<open>controller\<close>
  and \<open>cpu\<close> are objects where present, the value left in \<open>node_state\<close> for that
  node is 1 when \<open>s\<close> is one of up, Up, uP, UP, and 0 for every other string.
\<close>

theorem node_state_value:
  assumes "py_get node ''name'' (JStr ''Inconnu'') = Inr node_name"
    "py_get node ''uptime'' (JNum 0) = Inr uptime" "py_float e uptime = Inr up"
    "py_get node ''state'' (JStr []) = Inr (JStr s)"
    "try_get (try_get (py_get node ''controller'' (JObj [])) ''cpu'' (JObj []))
       ''count'' (JNum 0) = Inr cpu_count"
  shows "gauges (snd (collect_node e node st)) (node_state, [py_str e node_name])
         = Some (if s \<in> {''up'', ''Up'', ''uP'', ''UP''} then 1 else 0)"
proof -
  obtain c where c: "py_get node ''controller'' (JObj []) = Inr c"
    using assms(5) by (cases "py_get node ''controller'' (JObj [])") (auto simp: try_get_def)
  then obtain kvs where "c = JObj kvs"
    using assms(5) by (cases c) (auto simp: try_get_def)
  then obtain m where
    m: "try_get (py_get node ''controller'' (JObj [])) ''memory_size'' (JNum 0) = Inr m"
    using c by (simp add: try_get_def)
  show ?thesis
    using assms(1-4) m
    apply (simp add: collect_node_def assms(5) lower_up snd_andthen)
    apply (cases "py_float e cpu_count"; cases "py_float e m")
    apply (auto simp: set_gauge_json_def andthen_def lift_def set_gauge_def logging_def
                split: sum.splits)
    done
qed

theorem node_state_witness:
  "gauges (snd (collect_node sample_env sample_node fresh)) (node_state, [''node1'']) = Some 1
   \<and> gauges (snd (collect_node sample_env (JObj [(''name'', JStr ''node2''),
                 (''state'', JStr ''down'')]) fresh)) (node_state, [''node2'']) = Some 0
   \<and> gauges (snd (collect_node sample_env (JObj [(''name'', JStr ''node3'')]) fresh))
        (node_state, [''node3'']) = Some 0"
  using node_state_value [where node = sample_node and node_name = "JStr ''node1''"
      and uptime = "JNum 3600" and up = 3600 and s = "''UP''" and cpu_count = "JNum 8"
      and e = sample_env and st = fresh]
    node_state_value [where node = "JObj [(''name'', JStr ''node2''), (''state'', JStr ''down'')]"
      and node_name = "JStr ''node2''"
      and uptime = "JNum 0" and up = 0 and s = "''down''" and cpu_count = "JNum 0"
      and e = sample_env and st = fresh]
    node_state_value [where node = "JObj [(''name'', JStr ''node3'')]"
      and node_name = "JStr ''node3''"
      and uptime = "JNum 0" and up = 0 and s = "[]" and cpu_count = "JNum 0"
      and e = sample_env and st = fresh]
  by (simp add: sample_node_def py_str_def py_float_def try_get_def)

section \<open>A volume without space figures\<close>

lemma map_of_without:
  "map_of (filter (\<lambda>kv. fst kv \<noteq> k) kvs) k' = (if k' = k then None else map_of kvs k')"
  by (induction kvs) auto

lemma volume_space_empty:
  "py_get vol_detail ''space'' (JObj []) = Inr (JObj []) \<Longrightarrow>
   volume_space e n vol_detail st =
     (Inr (), st\<lparr>logged := logged st @ [(INFO, Volume_no_space (py_str e n))]\<rparr>)"
  by (simp add: volume_space_def logging_def)

lemma volume_created_result:
  "py_get vol_detail ''create_time'' JNull = Inr c \<Longrightarrow>
   \<exists>ts msgs. volume_created e n vol_detail st =
     (Inr (), st\<lparr>logged := logged st @ msgs,
                  gauges := (gauges st)((volume_create_time, [py_str e n]) \<mapsto> ts)\<rparr>)"
proof (cases "truthy c \<and> parse_create_time e c = None")
  case True
  assume "py_get vol_detail ''create_time'' JNull = Inr c"
  with True have "volume_created e n vol_detail st =
     (Inr (), st\<lparr>logged := logged st @ [(ERROR, Volume_date_error (py_str e n) c)],
                  gauges := (gauges st)((volume_create_time, [py_str e n]) \<mapsto> 0)\<rparr>)"
    by (simp add: volume_created_def andthen_def logging_def lift_def set_gauge_def)
  then show ?thesis by blast
next
  case False
  assume "py_get vol_detail ''create_time'' JNull = Inr c"
  with False have "\<exists>ts. volume_created e n vol_detail st =
     (Inr (), st\<lparr>logged := logged st @ [],
                  gauges := (gauges st)((volume_create_time, [py_str e n]) \<mapsto> ts)\<rparr>)"
    by (auto simp: volume_created_def andthen_def lift_def set_gauge_def split: option.splits)
  then show ?thesis by blast
qed

text \<open>
  C10. For a volume detail object whose \<open>space\<close> key is present and maps to the empty
  object (and whose \<open>snapshot_policy\<close> and \<open>svm\<close> are objects where present),
  processing it gives the very outcome of processing the same object without the key;
  none of the four space gauges changes for any label; the collector completes, and the
  gauges it writes are exactly \<open>volume_create_time\<close> of the volume and \<open>volume_info\<close>
  with the volume's five labels, the latter with value 1.
\<close>

theorem empty_space_like_absent:
  assumes "map_of kvs ''space'' = Some (JObj [])"
    "py_get (JObj kvs) ''style'' (JStr ''unknown'') = Inr style"
    "py_get (JObj kvs) ''type'' (JStr ''unknown'') = Inr vtype"
    "try_get (py_get (JObj kvs) ''snapshot_policy'' (JObj [])) ''name'' (JStr ''unknown'')
       = Inr snapshot_policy"
    "try_get (py_get (JObj kvs) ''svm'' (JObj [])) ''name'' (JStr ''unknown'') = Inr svm_name"
  shows "record_volume e vol_name (JObj kvs) st
           = record_volume e vol_name (JObj (filter (\<lambda>kv. fst kv \<noteq> ''space'') kvs)) st
       \<and> (\<forall>ls. gauges (snd (record_volume e vol_name (JObj kvs) st)) (volume_used, ls)
                 = gauges st (volume_used, ls))
       \<and> (\<forall>ls. gauges (snd (record_volume e vol_name (JObj kvs) st)) (volume_size, ls)
                 = gauges st (volume_size, ls))
       \<and> (\<forall>ls. gauges (snd (record_volume e vol_name (JObj kvs) st)) (volume_available, ls)
                 = gauges st (volume_available, ls))
       \<and> (\<forall>ls. gauges (snd (record_volume e vol_name (JObj kvs) st)) (volume_usage_percent, ls)
                 = gauges st (volume_usage_percent, ls))
       \<and> fst (record_volume e vol_name (JObj kvs) st) = Inr ()
       \<and> (\<exists>ts. gauges (snd (record_volume e vol_name (JObj kvs) st))
                 = (gauges st)
                     ((volume_create_time, [py_str e vol_name]) \<mapsto> ts,
                      (volume_info,
                       [py_str e vol_name, py_str e style, py_str e vtype,
                        py_str e snapshot_policy, py_str e svm_name]) \<mapsto> 1))"
proof -
  let ?without = "JObj (filter (\<lambda>kv. fst kv \<noteq> ''space'') kvs)"
  have "volume_space e vol_name ?without = volume_space e vol_name (JObj kvs)"
    using assms(1) by (rule_tac ext) (simp add: volume_space_def map_of_without)
  moreover have "volume_created e vol_name ?without = volume_created e vol_name (JObj kvs)"
    by (rule ext) (simp add: volume_created_def map_of_without)
  moreover have
    "volume_information e vol_name ?without = volume_information e vol_name (JObj kvs)"
    by (rule ext) (simp add: volume_information_def map_of_without)
  ultimately have eq: "record_volume e vol_name (JObj kvs) st
      = record_volume e vol_name ?without st"
    by (simp add: record_volume_def)
  obtain c where c: "py_get (JObj kvs) ''create_time'' JNull = Inr c"
    by simp
  define st1 where "st1 = st\<lparr>logged := logged st @ [(INFO, Volume_no_space (py_str e vol_name))]\<rparr>"
  obtain ts msgs where cr: "volume_created e vol_name (JObj kvs) st1 =
     (Inr (), st1\<lparr>logged := logged st1 @ msgs,
                  gauges := (gauges st1)((volume_create_time, [py_str e vol_name]) \<mapsto> ts)\<rparr>)"
    using volume_created_result [OF c] by blast
  have run: "record_volume e vol_name (JObj kvs) st =
     (Inr (), st1\<lparr>logged := logged st1 @ msgs,
        gauges := (gauges st)
           ((volume_create_time, [py_str e vol_name]) \<mapsto> ts,
            (volume_info, [py_str e vol_name, py_str e style, py_str e vtype,
               py_str e snapshot_policy, py_str e svm_name]) \<mapsto> 1)\<rparr>)"
    using assms volume_space_empty [of "JObj kvs" e vol_name st] cr
    by (simp add: record_volume_def andthen_def volume_information_def set_gauge_def
          st1_def)
  show ?thesis
  proof (intro conjI)
    show "record_volume e vol_name (JObj kvs) st = record_volume e vol_name ?without st"
      by (rule eq)
  qed (auto simp: run st1_def)
qed

theorem empty_space_like_absent_witness:
  "record_volume sample_env (JStr ''vol3'') sample_vol3 fresh
     = record_volume sample_env (JStr ''vol3'') (JObj [(''create_time'', JStr ''not-a-date'')])
         fresh
   \<and> gauges (snd (record_volume sample_env (JStr ''vol3'') sample_vol3 fresh))
        (volume_usage_percent, [''vol3'']) = None
   \<and> fst (record_volume sample_env (JStr ''vol3'') sample_vol3 fresh) = Inr ()"
proof -
  let ?kvs = "[(''space'', JObj []), (''create_time'', JStr ''not-a-date'')]"
  have h1: "map_of ?kvs ''space'' = Some (JObj [])"
    and h2: "py_get (JObj ?kvs) ''style'' (JStr ''unknown'') = Inr (JStr ''unknown'')"
    and h3: "py_get (JObj ?kvs) ''type'' (JStr ''unknown'') = Inr (JStr ''unknown'')"
    and h4: "try_get (py_get (JObj ?kvs) ''snapshot_policy'' (JObj [])) ''name''
               (JStr ''unknown'') = Inr (JStr ''unknown'')"
    and h5: "try_get (py_get (JObj ?kvs) ''svm'' (JObj [])) ''name'' (JStr ''unknown'')
               = Inr (JStr ''unknown'')"
    by (simp_all add: try_get_def)
  have without: "filter (\<lambda>kv. fst kv \<noteq> ''space'') ?kvs = [(''create_time'', JStr ''not-a-date'')]"
    by simp
  have none: "gauges fresh (volume_usage_percent, [''vol3'']) = None"
    by (simp add: fresh_def)
  from empty_space_like_absent [OF h1 h2 h3 h4 h5, of sample_env "JStr ''vol3''" fresh]
  show ?thesis
    unfolding sample_vol3_def without none [symmetric] by blast
qed

section \<open>The creation time of a volume\<close>

lemma replace_Z_append: "replace_Z (a @ b) = replace_Z a @ replace_Z b"
  by (simp add: replace_Z_def)

lemma replace_Z_none: "CHR ''Z'' \<notin> set s \<Longrightarrow> replace_Z s = s"
  by (induction s) (auto simp: replace_Z_def)

text \<open>
  C9, as the code has it. For a volume detail object whose creation time is a string
  \<open>s\<close>, the collector never raises on it. A non-empty \<open>s\<close> goes to the ISO parser
  with every \<open>Z\<close> replaced by \<open>+00:00\<close>: the timestamp the parser returns is
  recorded in \<open>volume_create_time\<close>, and a string the parser rejects is recorded as 0
  with one logged error. The empty string is recorded as 0 and nothing is logged. A
  string with a trailing \<open>Z\<close> and no other reaches the parser with the \<open>Z\<close> turned
  into the UTC offset.
\<close>

theorem volume_created_string:
  "(py_get vol_detail ''create_time'' JNull = Inr (JStr s) \<longrightarrow>
      volume_created e vol_name vol_detail st =
        (Inr (),
         if s = [] then
           st\<lparr>gauges := (gauges st)((volume_create_time, [py_str e vol_name]) \<mapsto> 0)\<rparr>
         else
           (case iso_timestamp e (replace_Z s) of
              Some ts \<Rightarrow>
                st\<lparr>gauges := (gauges st)((volume_create_time, [py_str e vol_name]) \<mapsto> ts)\<rparr>
            | None \<Rightarrow>
                st\<lparr>logged := logged st
                       @ [(ERROR, Volume_date_error (py_str e vol_name) (JStr s))],
                   gauges := (gauges st)((volume_create_time, [py_str e vol_name]) \<mapsto> 0)\<rparr>)))
   \<and> (CHR ''Z'' \<notin> set stem \<longrightarrow> replace_Z (stem @ ''Z'') = stem @ ''+00:00'')"
proof (intro conjI impI)
  assume "py_get vol_detail ''create_time'' JNull = Inr (JStr s)"
  then show "volume_created e vol_name vol_detail st =
        (Inr (),
         if s = [] then
           st\<lparr>gauges := (gauges st)((volume_create_time, [py_str e vol_name]) \<mapsto> 0)\<rparr>
         else
           (case iso_timestamp e (replace_Z s) of
              Some ts \<Rightarrow>
                st\<lparr>gauges := (gauges st)((volume_create_time, [py_str e vol_name]) \<mapsto> ts)\<rparr>
            | None \<Rightarrow>
                st\<lparr>logged := logged st
                       @ [(ERROR, Volume_date_error (py_str e vol_name) (JStr s))],
                   gauges := (gauges st)((volume_create_time, [py_str e vol_name]) \<mapsto> 0)\<rparr>))"
    by (simp add: volume_created_def parse_create_time_def andthen_def logging_def lift_def
          set_gauge_def split: option.splits)
next
  assume "CHR ''Z'' \<notin> set stem"
  then show "replace_Z (stem @ ''Z'') = stem @ ''+00:00''"
    by (simp add: replace_Z_append replace_Z_none) (simp add: replace_Z_def)
qed

lemma utc_timestamp_2023: "utc_timestamp ''2023-01-01T00:00:00+00:00'' = Some 1672531200"
  by code_simp

lemma utc_timestamp_not_a_date: "utc_timestamp ''not-a-date'' = None"
  by code_simp

theorem volume_created_string_witness:
  "replace_Z ''2023-01-01T00:00:00Z'' = ''2023-01-01T00:00:00+00:00''
   \<and> volume_created sample_env (JStr ''vol1'') sample_vol1 fresh =
       (Inr (), fresh\<lparr>gauges := (gauges fresh)((volume_create_time, [''vol1'']) \<mapsto> 1672531200)\<rparr>)
   \<and> volume_created sample_env (JStr ''vol3'') sample_vol3 fresh =
       (Inr (), fresh\<lparr>logged := [(ERROR, Volume_date_error ''vol3'' (JStr ''not-a-date''))],
                     gauges := (gauges fresh)((volume_create_time, [''vol3'']) \<mapsto> 0)\<rparr>)"
proof -
  have z: "replace_Z ''2023-01-01T00:00:00Z'' = ''2023-01-01T00:00:00+00:00''"
    using volume_created_string [of _ _ _ _ _ "''2023-01-01T00:00:00''"] by simp
  have n: "replace_Z ''not-a-date'' = ''not-a-date''"
    by (simp add: replace_Z_def)
  have l: "logged fresh = []"
    by (simp add: fresh_def)
  have a: "py_get sample_vol1 ''create_time'' JNull = Inr (JStr ''2023-01-01T00:00:00Z'')"
    and b: "py_get sample_vol3 ''create_time'' JNull = Inr (JStr ''not-a-date'')"
    by (simp_all add: sample_vol1_def sample_vol3_def)
  have i: "iso_timestamp sample_env = utc_timestamp"
    by (simp add: sample_env_def)
  show ?thesis
    using volume_created_string [of sample_vol1 "''2023-01-01T00:00:00Z''" sample_env
        "JStr ''vol1''" fresh] a
      volume_created_string [of sample_vol3 "''not-a-date''" sample_env "JStr ''vol3''" fresh] b
    by (simp add: z n i l utc_timestamp_2023 utc_timestamp_not_a_date py_str_def)
qed

text \<open>
  C9 as stated fails on the empty string: the sample parser rejects it, the collector
  records 0 for it, and the log stays empty.
\<close>

theorem empty_create_time_not_logged:
  "iso_timestamp sample_env (replace_Z []) = None
   \<and> volume_created sample_env (JStr ''vol1'') (JObj [(''create_time'', JStr [])]) fresh =
       (Inr (), fresh\<lparr>gauges := (gauges fresh)((volume_create_time, [''vol1'']) \<mapsto> 0)\<rparr>)
   \<and> logged (snd (volume_created sample_env (JStr ''vol1'')
                    (JObj [(''create_time'', JStr [])]) fresh)) = []"
proof -
  have "utc_timestamp [] = None"
    by (simp add: utc_timestamp_def)
  then show ?thesis
    by (simp add: volume_created_def set_gauge_def py_str_def fresh_def sample_env_def
          replace_Z_def)
qed

section \<open>Entries without a detail link\<close>

lemma foreach_append:
  "foreach f (xs @ ys) st =
     (case foreach f xs st of (Inl err, st') \<Rightarrow> (Inl err, st') | (Inr _, st') \<Rightarrow> foreach f ys st')"
  by (induction xs arbitrary: st) (auto split: prod.splits sum.splits)

lemma collect_volume_no_link:
  assumes "py_get entry ''name'' (JStr ''Inconnu'') = Inr name"
    "detail_link entry = Inr self_href" "\<not> truthy self_href"
  shows "collect_volume e ip u p entry st =
           (Inr (), st\<lparr>logged := logged st @ [(ERROR, Volume_no_link (py_str e name))]\<rparr>)"
  using assms by (simp add: collect_volume_def logging_def)

lemma collect_tier_no_link:
  assumes "py_get entry ''name'' (JStr ''Inconnu'') = Inr name"
    "detail_link entry = Inr self_href" "\<not> truthy self_href"
  shows "collect_tier e ip u p entry st =
           (Inr (), st\<lparr>logged := logged st @ [(ERROR, Tier_no_link (py_str e name))]\<rparr>)"
  using assms by (simp add: collect_tier_def logging_def)

lemma lacks_link_detail_link:
  "lacks_link entry \<longleftrightarrow> (\<exists>self_href. detail_link entry = Inr self_href \<and> \<not> truthy self_href)"
  by (cases entry)
     (auto simp: lacks_link_def detail_link_def try_get_def
           split: sum.splits json.splits option.splits)

text \<open>
  C8, as the code has it. A volume or aggregate list entry without a detail link (an
  object in which \<open>_links\<close> and \<open>self\<close> are objects where present and \<open>href\<close>
  is absent or counts as false) adds one error record to the log and does nothing
  else: no gauge, no counter, no request, no exception. In a list, the entries before
  it are processed as without it, and the entries after it are processed from the state
  they left, plus that record.
\<close>

theorem missing_link_skipped:
  assumes "lacks_link entry" "py_get entry ''name'' (JStr ''Inconnu'') = Inr name"
  shows "collect_volume e ip u p entry st =
           (Inr (), st\<lparr>logged := logged st @ [(ERROR, Volume_no_link (py_str e name))]\<rparr>)
       \<and> foreach (collect_volume e ip u p) (before @ entry # after) st =
           (case foreach (collect_volume e ip u p) before st of
              (Inl err, st') \<Rightarrow> (Inl err, st')
            | (Inr _, st') \<Rightarrow>
                foreach (collect_volume e ip u p) after
                  (st'\<lparr>logged := logged st' @ [(ERROR, Volume_no_link (py_str e name))]\<rparr>))
       \<and> collect_tier e ip u p entry st =
           (Inr (), st\<lparr>logged := logged st @ [(ERROR, Tier_no_link (py_str e name))]\<rparr>)
       \<and> foreach (collect_tier e ip u p) (before @ entry # after) st =
           (case foreach (collect_tier e ip u p) before st of
              (Inl err, st') \<Rightarrow> (Inl err, st')
            | (Inr _, st') \<Rightarrow>
                foreach (collect_tier e ip u p) after
                  (st'\<lparr>logged := logged st' @ [(ERROR, Tier_no_link (py_str e name))]\<rparr>))"
proof -
  obtain self_href where l: "detail_link entry = Inr self_href" "\<not> truthy self_href"
    using assms(1) lacks_link_detail_link by blast
  show ?thesis
    by (simp add: foreach_append collect_volume_no_link [OF assms(2) l]
          collect_tier_no_link [OF assms(2) l] split: prod.splits sum.splits)
qed

lemma sample_volumes_after_skip:
  "map (gauges (snd (foreach (collect_volume sample_env ''filer'' ''admin'' ''secret'')
                        sample_volumes fresh)))
     [(volume_create_time, [''vol1'']), (volume_create_time, [''vol2'']),
      (volume_create_time, [''vol3''])]
   = [Some 1672531200, None, Some 0]"
  by code_simp

lemma sample_aggregates_after_skip:
  "map (gauges (snd (foreach (collect_tier sample_env ''filer'' ''admin'' ''secret'')
                        (JObj [(''name'', JStr ''aggr0''), (''_links'', JObj [])]
                           # sample_aggregates) fresh)))
     [(tier_used, [''aggr0'']), (tier_used, [''aggr1''])]
   = [None, Some 30]"
  by code_simp

theorem missing_link_skipped_witness:
  "lacks_link (JObj [(''name'', JStr ''vol2'')])
   \<and> lacks_link (JObj [(''name'', JStr ''aggr0''), (''_links'', JObj [])])
   \<and> collect_volume sample_env ''filer'' ''admin'' ''secret'' (JObj [(''name'', JStr ''vol2'')]) fresh
     = (Inr (), fresh\<lparr>logged := [(ERROR, Volume_no_link ''vol2'')]\<rparr>)
   \<and> map (gauges (snd (foreach (collect_volume sample_env ''filer'' ''admin'' ''secret'')
                          sample_volumes fresh)))
        [(volume_create_time, [''vol1'']), (volume_create_time, [''vol2'']),
         (volume_create_time, [''vol3''])]
      = [Some 1672531200, None, Some 0]
   \<and> collect_tier sample_env ''filer'' ''admin'' ''secret''
        (JObj [(''name'', JStr ''aggr0''), (''_links'', JObj [])]) fresh
     = (Inr (), fresh\<lparr>logged := [(ERROR, Tier_no_link ''aggr0'')]\<rparr>)
   \<and> map (gauges (snd (foreach (collect_tier sample_env ''filer'' ''admin'' ''secret'')
                        (JObj [(''name'', JStr ''aggr0''), (''_links'', JObj [])]
                           # sample_aggregates) fresh)))
        [(tier_used, [''aggr0'']), (tier_used, [''aggr1''])]
      = [None, Some 30]"
proof -
  have v: "lacks_link (JObj [(''name'', JStr ''vol2'')])"
    and a: "lacks_link (JObj [(''name'', JStr ''aggr0''), (''_links'', JObj [])])"
    by (simp_all add: lacks_link_def)
  have vn: "py_get (JObj [(''name'', JStr ''vol2'')]) ''name'' (JStr ''Inconnu'')
              = Inr (JStr ''vol2'')"
    and an: "py_get (JObj [(''name'', JStr ''aggr0''), (''_links'', JObj [])]) ''name''
               (JStr ''Inconnu'') = Inr (JStr ''aggr0'')"
    by simp_all
  have l: "logged fresh = []"
    by (simp add: fresh_def)
  have "collect_volume sample_env ''filer'' ''admin'' ''secret''
          (JObj [(''name'', JStr ''vol2'')]) fresh
        = (Inr (), fresh\<lparr>logged := [(ERROR, Volume_no_link ''vol2'')]\<rparr>)"
    using missing_link_skipped [OF v vn, of sample_env "''filer''" "''admin''" "''secret''" fresh]
    by (simp add: py_str_def l)
  moreover have "collect_tier sample_env ''filer'' ''admin'' ''secret''
          (JObj [(''name'', JStr ''aggr0''), (''_links'', JObj [])]) fresh
        = (Inr (), fresh\<lparr>logged := [(ERROR, Tier_no_link ''aggr0'')]\<rparr>)"
    using missing_link_skipped [OF a an, of sample_env "''filer''" "''admin''" "''secret''" fresh]
    by (simp add: py_str_def l)
  ultimately show ?thesis
    using v a sample_volumes_after_skip sample_aggregates_after_skip by simp
qed

text \<open>
  C8 as stated fails twice. A node list entry without a detail link is not skipped: its
  four gauges are written. And a volume entry whose \<open>_links\<close> is \<open>null\<close> has no
  detail link either, yet reading it raises AttributeError, which ends the loop before
  the entry after it is reached.
\<close>

theorem link_less_entry_not_skipped:
  "lacks_link (JObj [(''name'', JStr ''node3'')])
   \<and> fst (collect_node sample_env (JObj [(''name'', JStr ''node3'')]) fresh) = Inr ()
   \<and> map (gauges (snd (collect_node sample_env (JObj [(''name'', JStr ''node3'')]) fresh)))
        [(node_uptime, [''node3'']), (node_state, [''node3'']),
         (node_cpu_count, [''node3'']), (node_memory_size, [''node3''])]
      = [Some 0, Some 0, Some 0, Some 0]
   \<and> detail_link (JObj [(''name'', JStr ''vol0''), (''_links'', JNull)]) = Inl AttributeError
   \<and> foreach (collect_volume sample_env ''filer'' ''admin'' ''secret'')
        [JObj [(''name'', JStr ''vol0''), (''_links'', JNull)],
         linked ''vol1'' ''/api/storage/volumes/v1''] fresh
      = (Inl AttributeError, fresh)"
proof -
  have "lacks_link (JObj [(''name'', JStr ''node3'')])"
    by (simp add: lacks_link_def)
  moreover have "fst (collect_node sample_env (JObj [(''name'', JStr ''node3'')]) fresh) = Inr ()
   \<and> map (gauges (snd (collect_node sample_env (JObj [(''name'', JStr ''node3'')]) fresh)))
        [(node_uptime, [''node3'']), (node_state, [''node3'']),
         (node_cpu_count, [''node3'']), (node_memory_size, [''node3''])]
      = [Some 0, Some 0, Some 0, Some 0]"
    by code_simp
  moreover have d: "detail_link (JObj [(''name'', JStr ''vol0''), (''_links'', JNull)])
      = Inl AttributeError"
    by (simp add: detail_link_def try_get_def)
  moreover have "foreach (collect_volume sample_env ''filer'' ''admin'' ''secret'')
        [JObj [(''name'', JStr ''vol0''), (''_links'', JNull)],
         linked ''vol1'' ''/api/storage/volumes/v1''] fresh
      = (Inl AttributeError, fresh)"
    by (simp add: collect_volume_def d)
  ultimately show ?thesis
    by simp
qed

section \<open>Which requests a collector makes\<close>

definition keeps :: "(state \<Rightarrow> 'b) \<Rightarrow> 'a prog \<Rightarrow> bool" where
  "keeps field m = (\<forall>st. field (snd (m st)) = field st)"









lemma keeps_gauges_logging: "keeps gauges (logging l m)"
  by (simp add: keeps_def logging_def)























section \<open>The shape of a list response\<close>

text \<open>
  C3. On a list response that is a bare array, \<open>data.get("records", data)\<close> raises
  AttributeError in each of the three collectors: the run ends there, no entry is
  visited, no detail is requested and no gauge is written. The same entries inside a
  \<open>records\<close> envelope are processed.
\<close>

theorem bare_array_raises:
  "http_get bare_env ''https://filer/api/cluster/nodes'' ''admin'' ''secret''
     = Response 200 (Some (JArr [sample_node]))
   \<and> fst (collect_volume_metrics bare_env ''filer'' ''admin'' ''secret'' fresh)
       = Inl AttributeError
   \<and> fst (collect_tier_metrics bare_env ''filer'' ''admin'' ''secret'' fresh)
       = Inl AttributeError
   \<and> fst (collect_node_metrics bare_env ''filer'' ''admin'' ''secret'' fresh)
       = Inl AttributeError
   \<and> fetched (snd (collect_volume_metrics bare_env ''filer'' ''admin'' ''secret'' fresh))
       = [''https://filer/api/storage/volumes'']
   \<and> gauges (snd (collect_node_metrics bare_env ''filer'' ''admin'' ''secret'' fresh))
        (node_state, [''node1'']) = None
   \<and> gauges (snd (collect_node_metrics sample_env ''filer'' ''admin'' ''secret'' fresh))
        (node_state, [''node1'']) = Some 1"
  by code_simp

section \<open>The names of the metric families\<close>

text \<open>
  C4, as the code has it. The families the module registers are those of the
  specification's catalogue, in its order and with its label sets, each name carrying
  the prefix \<open>netapp_\<close>.
\<close>

theorem metric_families_prefixed:
  "metric_families = map (\<lambda>(name, labels). (''netapp_'' @ name, labels)) catalogue_of_spec"
  by (simp add: metric_families_def all_gauges_def catalogue_of_spec_def)

text \<open>C4 as stated fails: no registered family bears a name of the catalogue.\<close>

theorem catalogue_names_not_registered:
  "set (map fst metric_families) \<inter> set (map fst catalogue_of_spec) = {}
   \<and> (''volume_used_bytes'', [''volume'']) \<in> set catalogue_of_spec
   \<and> (''volume_used_bytes'', [''volume'']) \<notin> set metric_families"
  by (simp add: metric_families_def all_gauges_def catalogue_of_spec_def)

end
